theory Spec2Isabelle
  imports Complex_Main
begin

section \<open>The bar chart visual of \<^verbatim>\<open>src/visual.ts\<close>\<close>

text \<open>
  The visual has two parts: \<^verbatim>\<open>getViewModel\<close>, which turns the host's categorical data
  view into a list of data points, and \<^verbatim>\<open>update\<close>, which draws them and attaches the
  click handler. Both are embedded here as functions on records.

  Conventions of the embedding:
  \<^item> a JavaScript value that may be \<^verbatim>\<open>undefined\<close> or \<^verbatim>\<open>null\<close> is an \<open>option\<close>,
    with \<open>None\<close> for the missing value;
  \<^item> reading a property of \<^verbatim>\<open>undefined\<close> raises \<^verbatim>\<open>TypeError\<close>, which is the value
    \<open>Inl TypeError\<close> of the result type;
  \<^item> the casts \<^verbatim>\<open><number>\<close> and \<^verbatim>\<open><string>\<close> of the source are trusted, so a value cell is
    a number and a category cell is a string; a number is \<^verbatim>\<open>NaN\<close>, an infinity or a real,
    compared as JavaScript compares them;
  \<^item> objects of the host that are compared by identity (selection ids) are references
    into a store.
\<close>

subsection \<open>JavaScript primitives\<close>

datatype error = TypeError

text \<open>\<^verbatim>\<open>xs[i]\<close>: \<^verbatim>\<open>undefined\<close> beyond the end of the array.\<close>

definition js_nth :: "'a list \<Rightarrow> nat \<Rightarrow> 'a option" where
  "js_nth xs i = (if i < length xs then Some (xs ! i) else None)"

text \<open>
  Numbers, and \<^verbatim>\<open>a < b\<close> on them: every comparison with \<^verbatim>\<open>NaN\<close> is false. \<^verbatim>\<open>b > a\<close> is
  \<open>js_lt a b\<close>, and \<^verbatim>\<open>b >= a\<close> holds when neither is \<^verbatim>\<open>NaN\<close> and \<^verbatim>\<open>b < a\<close> does not.
\<close>

datatype number = NaN | NegInfinity | Num real | PosInfinity

fun js_lt :: "number \<Rightarrow> number \<Rightarrow> bool" where
  "js_lt NaN b = False"
| "js_lt a NaN = False"
| "js_lt PosInfinity b = False"
| "js_lt a NegInfinity = False"
| "js_lt NegInfinity b = True"
| "js_lt a PosInfinity = True"
| "js_lt (Num x) (Num y) = (x < y)"

definition js_ge :: "number \<Rightarrow> number \<Rightarrow> bool" where
  "js_ge b a = (if b = NaN then False else if a = NaN then False else (if js_lt b a then False else True))"

text \<open>The cells of a highlight array are \<^verbatim>\<open>PrimitiveValue\<close>s, tested for truthiness.\<close>

datatype PrimitiveValue = PNull | PNumber number | PString string | PBoolean bool

fun truthy :: "PrimitiveValue \<Rightarrow> bool" where
  "truthy PNull = False"
| "truthy (PNumber x) = (if x = NaN then False else x \<noteq> Num 0)"
| "truthy (PString s) = (s \<noteq> [])"
| "truthy (PBoolean b) = b"

text \<open>\<^verbatim>\<open>xs.indexOf(x)\<close>: the first index whose element is strictly equal to \<open>x\<close>, else \<open>-1\<close>.\<close>

fun indexOf_from :: "'a list \<Rightarrow> 'a \<Rightarrow> int \<Rightarrow> int" where
  "indexOf_from [] x k = - 1"
| "indexOf_from (y # ys) x k = (if y = x then k else indexOf_from ys x (k + 1))"

definition indexOf :: "'a list \<Rightarrow> 'a \<Rightarrow> int" where
  "indexOf xs x = indexOf_from xs x 0"

subsection \<open>The host's data view\<close>

record DataViewMetadataColumn =
  displayName :: string

text \<open>
  A fill property is \<^verbatim>\<open>{solid?: {color?: string}}\<close>: the outer \<open>option\<close> is \<^verbatim>\<open>solid\<close>, the
  inner one \<^verbatim>\<open>color\<close>. A \<^verbatim>\<open>DataViewObject\<close> maps property names to values, a
  \<^verbatim>\<open>DataViewObjects\<close> maps object names to objects.
\<close>

type_synonym Fill = "string option option"
type_synonym DataViewObject = "string \<rightharpoonup> Fill"
type_synonym DataViewObjects = "string \<rightharpoonup> DataViewObject"

record DataViewCategoryColumn =
  source_cat :: "DataViewMetadataColumn option"
  values_cat :: "string list"
  objects_cat :: "DataViewObjects option list option"

record DataViewValueColumn =
  source_val :: DataViewMetadataColumn
  values_val :: "number list"
  highlights_val :: "PrimitiveValue list option"

record DataViewCategorical =
  categories :: "DataViewCategoryColumn list option"
  values_dv :: "DataViewValueColumn list option"

record DataView =
  categorical :: "DataViewCategorical option"

record Viewport =
  width :: real
  height :: real

record VisualUpdateOptions =
  dataViews :: "DataView list option"
  viewport :: Viewport

subsection \<open>The host's services\<close>

text \<open>
  The colour palette and \<^verbatim>\<open>Number.prototype.toString\<close> are not code of the visual: they
  are parameters. \<open>getColor\<close> stands for \<^verbatim>\<open>host.colorPalette.getColor(key).value\<close>; its key
  is \<^verbatim>\<open>undefined\<close> for a row beyond the category column.
\<close>

record Env =
  getColor :: "string option \<Rightarrow> string"
  toString :: "number \<Rightarrow> string"

text \<open>
  A selection id is an object of the host: \<^verbatim>\<open>createSelectionId()\<close> returns a new object
  on every call. The store keeps what each object identifies (the category column's
  display name and the row), which is what the host's \<^verbatim>\<open>equals\<close> compares; \<^verbatim>\<open>===\<close> and
  \<^verbatim>\<open>indexOf\<close> compare the references.
\<close>

type_synonym ref = nat

record SelectionIdData =
  sid_column :: "string option"
  sid_row :: nat

record Host =
  nextRef :: ref
  selectionIds :: "ref \<rightharpoonup> SelectionIdData"

definition createSelectionId :: "Host \<Rightarrow> DataViewCategoryColumn \<Rightarrow> nat \<Rightarrow> ref \<times> Host" where
  "createSelectionId h c i =
     (nextRef h,
      h\<lparr>nextRef := Suc (nextRef h),
        selectionIds := (selectionIds h)(nextRef h \<mapsto>
          \<lparr>sid_column = map_option displayName (source_cat c), sid_row = i\<rparr>)\<rparr>)"

definition sid_equals :: "Host \<Rightarrow> ref \<Rightarrow> ref \<Rightarrow> bool" where
  "sid_equals h a b = (selectionIds h a = selectionIds h b)"

text \<open>
  \<^verbatim>\<open>dataViewObjects.getFillColor(objects, {objectName, propertyName}, null)\<close> of the
  utility library: the colour of the solid fill stored under the two keys, \<^verbatim>\<open>null\<close> when
  the object, the property or its \<^verbatim>\<open>solid\<close> part is missing.
\<close>

definition getFillColor :: "DataViewObjects \<Rightarrow> string \<Rightarrow> string \<Rightarrow> string option" where
  "getFillColor objs objectName propertyName =
     (case objs objectName of
        None \<Rightarrow> None
      | Some obj \<Rightarrow>
          (case obj propertyName of
             None \<Rightarrow> None
           | Some None \<Rightarrow> None
           | Some (Some c) \<Rightarrow> c))"

text \<open>
  \<^verbatim>\<open>d3.max(array, accessor)\<close> of d3 (version 3), on the values the accessor gives. Its first
  loop looks for the first value \<open>b\<close> with \<^verbatim>\<open>b != null && b >= b\<close>, which skips \<^verbatim>\<open>undefined\<close>
  and \<^verbatim>\<open>NaN\<close>; its second loop replaces the current \<open>a\<close> by every later \<open>b\<close> with
  \<^verbatim>\<open>b != null && b > a\<close>. The result is \<^verbatim>\<open>undefined\<close> when the first loop finds nothing.
\<close>

fun d3_max_from :: "number \<Rightarrow> number option list \<Rightarrow> number" where
  "d3_max_from a [] = a"
| "d3_max_from a (None # xs) = d3_max_from a xs"
| "d3_max_from a (Some b # xs) = d3_max_from (if js_lt a b then b else a) xs"

fun d3_max :: "number option list \<Rightarrow> number option" where
  "d3_max [] = None"
| "d3_max (None # xs) = d3_max xs"
| "d3_max (Some b # xs) = (if js_ge b b then Some (d3_max_from b xs) else d3_max xs)"

subsection \<open>The view model\<close>

record VisualTooltipDataItem =
  tt_displayName :: string
  tt_value :: "string option"

record DataPoint =
  category :: "string option"
  value_num :: "number option"
  color :: string
  selectionId :: ref
  highlighted :: bool
  tooltips :: "VisualTooltipDataItem list"

record ViewModel =
  dataPoints :: "DataPoint list"
  maxValue :: "number option"
  highlights :: bool

text \<open>Lines 278-282: the view model returned when the guard gives up.\<close>

definition emptyViewModel :: ViewModel where
  "emptyViewModel = \<lparr>dataPoints = [], maxValue = Some (Num 0), highlights = False\<rparr>"

text \<open>
  Lines 284-296: the guard and the two columns read after it. \<open>Inr None\<close> is the early
  return. \<^verbatim>\<open>categories[0].source\<close> on an empty \<^verbatim>\<open>categories\<close> array and
  \<^verbatim>\<open>values.highlights\<close> on an empty \<^verbatim>\<open>values\<close> array read a property of \<^verbatim>\<open>undefined\<close>.
\<close>

definition readColumns ::
  "VisualUpdateOptions \<Rightarrow> error + (DataViewCategoryColumn \<times> DataViewValueColumn) option" where
  "readColumns options =
     (case dataViews options of
        None \<Rightarrow> Inr None
      | Some dv \<Rightarrow>
     (case js_nth dv 0 of
        None \<Rightarrow> Inr None
      | Some dv0 \<Rightarrow>
     (case categorical dv0 of
        None \<Rightarrow> Inr None
      | Some view \<Rightarrow>
     (case categories view of
        None \<Rightarrow> Inr None
      | Some cats \<Rightarrow>
     (case js_nth cats 0 of
        None \<Rightarrow> Inl TypeError
      | Some c \<Rightarrow>
     (case source_cat c of
        None \<Rightarrow> Inr None
      | Some src \<Rightarrow>
     (case values_dv view of
        None \<Rightarrow> Inr None
      | Some vals \<Rightarrow>
     (case js_nth vals 0 of
        None \<Rightarrow> Inl TypeError
      | Some v \<Rightarrow> Inr (Some (c, v))))))))))"

text \<open>
  Lines 303-311: \<^verbatim>\<open>objects && objects[i] && getFillColor(...)\<close>, the left operand of
  \<^verbatim>\<open>||\<close>. The empty string is falsy, as \<^verbatim>\<open>undefined\<close> and \<^verbatim>\<open>null\<close> are.
\<close>

definition rowFillColor :: "DataViewCategoryColumn \<Rightarrow> nat \<Rightarrow> string option" where
  "rowFillColor c i =
     (case objects_cat c of
        None \<Rightarrow> None
      | Some objs \<Rightarrow>
          (case js_nth objs i of
             None \<Rightarrow> None
           | Some None \<Rightarrow> None
           | Some (Some o_i) \<Rightarrow>
               (case getFillColor o_i ''dataColor'' ''fill'' of
                  None \<Rightarrow> None
                | Some col \<Rightarrow> if col = [] then None else Some col)))"

text \<open>Line 315: \<^verbatim>\<open>highlights ? highlights[i] ? true : false : false\<close>.\<close>

definition rowHighlighted :: "PrimitiveValue list option \<Rightarrow> nat \<Rightarrow> bool" where
  "rowHighlighted hl i =
     (case hl of
        None \<Rightarrow> False
      | Some hs \<Rightarrow> (case js_nth hs i of None \<Rightarrow> False | Some p \<Rightarrow> truthy p))"

text \<open>
  Lines 300-327: the data point of row \<open>i\<close>. \<^verbatim>\<open>values.values[i].toString()\<close> raises when
  the value column has no row \<open>i\<close>.
\<close>

definition makeDataPoint ::
  "Env \<Rightarrow> DataViewCategoryColumn \<Rightarrow> DataViewValueColumn \<Rightarrow> nat \<Rightarrow> Host \<Rightarrow>
     error + DataPoint \<times> Host" where
  "makeDataPoint env c v i h =
     (let cat = js_nth (values_cat c) i;
          val = js_nth (values_val v) i;
          col = (case rowFillColor c i of Some x \<Rightarrow> x | None \<Rightarrow> getColor env cat);
          (sid, h') = createSelectionId h c i;
          hl = rowHighlighted (highlights_val v) i
      in case source_cat c of
           None \<Rightarrow> Inl TypeError
         | Some src \<Rightarrow>
             (case val of
                None \<Rightarrow> Inl TypeError
              | Some x \<Rightarrow>
                  Inr (\<lparr>category = cat, value_num = val, color = col, selectionId = sid,
                        highlighted = hl,
                        tooltips =
                          [\<lparr>tt_displayName = displayName src @ '':'', tt_value = cat\<rparr>,
                           \<lparr>tt_displayName = displayName (source_val v) @ '':'',
                            tt_value = Some (toString env x)\<rparr>]\<rparr>, h')))"

text \<open>Lines 299-328: the loop, pushing one data point per index below \<open>len\<close>.\<close>

function pushRows ::
  "Env \<Rightarrow> DataViewCategoryColumn \<Rightarrow> DataViewValueColumn \<Rightarrow> nat \<Rightarrow> nat \<Rightarrow>
     DataPoint list \<Rightarrow> Host \<Rightarrow> error + DataPoint list \<times> Host" where
  "pushRows env c v i len dps h =
     (if i < len then
        (case makeDataPoint env c v i h of
           Inl e \<Rightarrow> Inl e
         | Inr (d, h') \<Rightarrow> pushRows env c v (Suc i) len (dps @ [d]) h')
      else Inr (dps, h))"
  by pat_completeness auto
termination
  by (relation "measure (\<lambda>(env, c, v, i, len, dps, h). len - i)") auto

declare pushRows.simps [simp del]

text \<open>Lines 299-335: the loop and the two aggregates computed after it.\<close>

definition buildViewModel ::
  "Env \<Rightarrow> DataViewCategoryColumn \<Rightarrow> DataViewValueColumn \<Rightarrow> Host \<Rightarrow>
     error + ViewModel \<times> Host" where
  "buildViewModel env c v h =
     (case pushRows env c v 0 (max (length (values_cat c)) (length (values_val v))) [] h of
        Inl e \<Rightarrow> Inl e
      | Inr (dps, h') \<Rightarrow>
          Inr (\<lparr>dataPoints = dps,
                maxValue = d3_max (map value_num dps),
                highlights = (length (filter highlighted dps) > 0)\<rparr>, h'))"

text \<open>Lines 275-336.\<close>

definition getViewModel ::
  "Env \<Rightarrow> VisualUpdateOptions \<Rightarrow> Host \<Rightarrow> error + ViewModel \<times> Host" where
  "getViewModel env options h =
     (case readColumns options of
        Inl e \<Rightarrow> Inl e
      | Inr None \<Rightarrow> Inr (emptyViewModel, h)
      | Inr (Some (c, v)) \<Rightarrow> buildViewModel env c v h)"

subsection \<open>Rendering\<close>

text \<open>
  \<^verbatim>\<open>VisualSettings\<close> is declared in \<^verbatim>\<open>./settings\<close>; \<^verbatim>\<open>update\<close> reads \<^verbatim>\<open>xAxis.show\<close> of
  the parsed settings only, so the parsed settings are an argument of \<open>update\<close>.
\<close>

record XAxisSettings =
  xAxis_show :: bool

record VisualSettings =
  xAxis :: XAxisSettings

record Margin =
  m_left :: real
  m_right :: real
  m_top :: real
  m_bottom :: real

text \<open>Lines 87-92.\<close>

definition margin :: Margin where
  "margin = \<lparr>m_left = 30, m_right = 20, m_top = 40, m_bottom = 30\<rparr>"

text \<open>
  What the visual hands to d3: a scale is its domain and range (for the ordinal scale the
  interval and padding of \<^verbatim>\<open>rangeRoundBands\<close>), an axis is a scale with its orientation
  and tick size. The pixel arithmetic of d3's scales, and with it the geometry of the
  bars, is d3's and is not part of the embedding.
\<close>

datatype Scale =
  Linear "real \<times> number option" "real \<times> real"
| OrdinalBands "string option list" "real \<times> real" real

record Axis =
  scale :: Scale
  orient :: string
  tickSize :: real

text \<open>
  An axis group of the scene: the axis drawn into it (\<open>None\<close> for the empty group the
  constructor appends), its \<^verbatim>\<open>transform\<close> as the two arguments of \<^verbatim>\<open>translate\<close>, and the
  \<^verbatim>\<open>visibility\<close> style of its tick texts.
\<close>

record AxisGroup =
  axis :: "Axis option"
  transform :: "(real \<times> real) option"
  textVisibility :: "string option"

record Bar =
  datum :: DataPoint
  fill :: string
  fill_opacity :: real

record Visual =
  settings :: "VisualSettings option"
  viewModel :: "ViewModel option"
  host :: Host
  svgSize :: "Viewport option"
  yAxisGroup :: AxisGroup
  xAxisGroup :: AxisGroup
  barGroup :: "Bar list"

text \<open>Lines 94-111.\<close>

definition constructor :: "Host \<Rightarrow> Visual" where
  "constructor h =
     \<lparr>settings = None, viewModel = None, host = h, svgSize = None,
      yAxisGroup = \<lparr>axis = None, transform = None, textVisibility = None\<rparr>,
      xAxisGroup = \<lparr>axis = None, transform = None, textVisibility = None\<rparr>,
      barGroup = []\<rparr>"

text \<open>Lines 121 and 122.\<close>

definition xAxisPadding :: "VisualSettings \<Rightarrow> real" where
  "xAxisPadding s = (if xAxis_show (xAxis s) then m_bottom margin else 10)"

definition xAxisTextVisible :: "VisualSettings \<Rightarrow> string" where
  "xAxisTextVisible s = (if xAxis_show (xAxis s) then ''visible'' else ''hidden'')"

text \<open>Line 179: the \<^verbatim>\<open>fill-opacity\<close> of a bar on render.\<close>

definition highlightOpacity :: "ViewModel \<Rightarrow> DataPoint \<Rightarrow> real" where
  "highlightOpacity vm d = (if highlights vm then (if highlighted d then 1 else 1 / 2) else 1)"

text \<open>
  Lines 163-180 and 224-225: the data join binds the data points to the rectangles by
  index, appends the missing ones and removes the surplus, so that the group holds one
  rectangle per data point, each with the attributes set here.
\<close>

definition joinBars :: "ViewModel \<Rightarrow> Bar list" where
  "joinBars vm =
     map (\<lambda>d. \<lparr>datum = d, fill = color d, fill_opacity = highlightOpacity vm d\<rparr>)
       (dataPoints vm)"

text \<open>Lines 113-226, the event handlers apart.\<close>

definition update :: "Env \<Rightarrow> VisualSettings \<Rightarrow> VisualUpdateOptions \<Rightarrow> Visual \<Rightarrow> error + Visual" where
  "update env s options vis =
     (case getViewModel env options (host vis) of
        Inl e \<Rightarrow> Inl e
      | Inr (vm, h') \<Rightarrow>
          (let w = width (viewport options);
               ht = height (viewport options);
               pad = xAxisPadding s;
               yScale = Linear (0, maxValue vm) (ht - pad, 0 + m_top margin);
               xScale = OrdinalBands (map category (dataPoints vm)) (0 + m_left margin, w) (1 / 2)
           in Inr \<lparr>settings = Some s, viewModel = Some vm, host = h',
                   svgSize = Some \<lparr>width = w, height = ht\<rparr>,
                   yAxisGroup =
                     \<lparr>axis = Some \<lparr>scale = yScale, orient = ''left'', tickSize = 1\<rparr>,
                      transform = Some (m_left margin, 0),
                      textVisibility = textVisibility (yAxisGroup vis)\<rparr>,
                   xAxisGroup =
                     \<lparr>axis = Some \<lparr>scale = xScale, orient = ''bottom'', tickSize = 1\<rparr>,
                      transform = Some (0, ht - pad),
                      textVisibility = Some (xAxisTextVisible s)\<rparr>,
                   barGroup = joinBars vm\<rparr>))"

text \<open>
  Lines 186-188: the \<^verbatim>\<open>fill-opacity\<close> set once the selection manager has answered with
  the list \<open>ids\<close>.
\<close>

definition clickOpacity :: "ref list \<Rightarrow> DataPoint \<Rightarrow> real" where
  "clickOpacity ids d =
     (if length ids > 0 then (if indexOf ids (selectionId d) \<ge> 0 then 1 else 1 / 2) else 1)"

text \<open>
  Lines 182-191: the click handler of a bar, on the path where the promise of the
  selection manager resolves. The selection manager is the host's: \<open>select\<close> takes its
  state, the identity and the multi-select flag, and answers with the selected
  identities and its new state.
\<close>

definition onClick ::
  "('m \<Rightarrow> ref \<Rightarrow> bool \<Rightarrow> ref list \<times> 'm) \<Rightarrow> 'm \<Rightarrow> Visual \<Rightarrow> DataPoint \<Rightarrow> Visual \<times> 'm" where
  "onClick select sm vis d =
     (let (ids, sm') = select sm (selectionId d) True
      in (vis\<lparr>barGroup := map (\<lambda>b. b\<lparr>fill_opacity := clickOpacity ids (datum b)\<rparr>) (barGroup vis)\<rparr>,
          sm'))"

subsection \<open>Example inputs\<close>

text \<open>
  The inputs of the examples below: a palette and a number printer that are defined on the
  categories and values of the examples, a host that has issued no selection id yet, an
  update with one category column and one value column, a row object that overrides the
  fill colour, a selection manager that toggles the identity it is given, and the visual
  after one and after two updates with the same three rows.
\<close>

definition sampleEnv :: Env where
  "sampleEnv =
     \<lparr>getColor = (\<lambda>k. if k = Some ''A'' then ''#01B8AA'' else if k = Some ''B'' then ''#374649''
                        else ''#FD625E''),
      toString = (\<lambda>x. if x = Num 1 then ''1'' else if x = Num 2 then ''2''
                        else if x = Num 3 then ''3'' else ''?'')\<rparr>"

definition newHost :: Host where
  "newHost = \<lparr>nextRef = 0, selectionIds = Map.empty\<rparr>"

definition chartCategories ::
  "string list \<Rightarrow> DataViewObjects option list option \<Rightarrow> DataViewCategoryColumn" where
  "chartCategories cs objs =
     \<lparr>source_cat = Some \<lparr>displayName = ''Category''\<rparr>, values_cat = cs, objects_cat = objs\<rparr>"

definition chartValues :: "number list \<Rightarrow> PrimitiveValue list option \<Rightarrow> DataViewValueColumn" where
  "chartValues vs hl =
     \<lparr>source_val = \<lparr>displayName = ''Sales''\<rparr>, values_val = vs, highlights_val = hl\<rparr>"

definition chartOptions ::
  "string list \<Rightarrow> number list \<Rightarrow> PrimitiveValue list option \<Rightarrow>
     DataViewObjects option list option \<Rightarrow> VisualUpdateOptions" where
  "chartOptions cs vs hl objs =
     \<lparr>dataViews = Some [\<lparr>categorical = Some
        \<lparr>categories = Some [chartCategories cs objs],
         values_dv = Some [chartValues vs hl]\<rparr>\<rparr>],
      viewport = \<lparr>width = 400, height = 300\<rparr>\<rparr>"

definition fillObjects :: "string \<Rightarrow> DataViewObjects" where
  "fillObjects col = [''dataColor'' \<mapsto> [''fill'' \<mapsto> Some (Some col)]]"

definition showSettings :: "bool \<Rightarrow> VisualSettings" where
  "showSettings b = \<lparr>xAxis = \<lparr>xAxis_show = b\<rparr>\<rparr>"

definition toggleSelect :: "ref list \<Rightarrow> ref \<Rightarrow> bool \<Rightarrow> ref list \<times> ref list" where
  "toggleSelect sel r multi =
     (let sel' = (if r \<in> set sel then removeAll r sel else if multi then sel @ [r] else [r])
      in (sel', sel'))"

definition firstRender :: Visual where
  "firstRender =
     projr (update sampleEnv (showSettings True)
       (chartOptions [''A'', ''B'', ''C''] [Num 3, Num 1, Num 2] None None) (constructor newHost))"

definition secondRender :: Visual where
  "secondRender =
     projr (update sampleEnv (showSettings True)
       (chartOptions [''A'', ''B'', ''C''] [Num 3, Num 1, Num 2] None None) firstRender)"

lemmas eval_defs = getViewModel_def readColumns_def chartOptions_def chartCategories_def
  chartValues_def js_nth_def buildViewModel_def pushRows.simps makeDataPoint_def
  rowFillColor_def rowHighlighted_def createSelectionId_def sampleEnv_def newHost_def Let_def
  emptyViewModel_def getFillColor_def fillObjects_def

lemmas render_defs = update_def joinBars_def highlightOpacity_def xAxisPadding_def
  xAxisTextVisible_def margin_def constructor_def showSettings_def onClick_def
  clickOpacity_def indexOf_def toggleSelect_def sid_equals_def

section \<open>Properties\<close>

subsection \<open>Auxiliary facts\<close>


lemma indexOf_from_mem: "0 \<le> k \<Longrightarrow> (0 \<le> indexOf_from xs x k) = (x \<in> set xs)"
  by (induction xs arbitrary: k) auto

lemma indexOf_mem: "(0 \<le> indexOf xs x) = (x \<in> set xs)"
  by (simp add: indexOf_def indexOf_from_mem)

lemma js_lt_NaN_right: "\<not> js_lt a NaN"
  by (cases a) simp_all

lemma js_lt_irrefl: "\<not> js_lt a a"
  by (cases a) simp_all

lemma js_lt_trans: "js_lt a b \<Longrightarrow> js_lt b c \<Longrightarrow> js_lt a c"
  by (cases a; cases b; cases c) simp_all

lemma js_lt_total: "a \<noteq> NaN \<Longrightarrow> b \<noteq> NaN \<Longrightarrow> \<not> js_lt a b \<Longrightarrow> a \<noteq> b \<Longrightarrow> js_lt b a"
  by (cases a; cases b) simp_all

lemma js_ge_self: "js_ge b b = (b \<noteq> NaN)"
  by (simp add: js_ge_def js_lt_irrefl)

lemma d3_max_from_spec:
  "a \<noteq> NaN \<Longrightarrow>
     d3_max_from a xs \<noteq> NaN
   \<and> (d3_max_from a xs = a \<or> Some (d3_max_from a xs) \<in> set xs)
   \<and> \<not> js_lt (d3_max_from a xs) a
   \<and> (\<forall>x. Some x \<in> set xs \<longrightarrow> \<not> js_lt (d3_max_from a xs) x)"
proof (induction a xs rule: d3_max_from.induct)
  case (1 a)
  then show ?case by (simp add: js_lt_irrefl)
next
  case (2 a xs)
  then show ?case by simp
next
  case (3 a b xs)
  let ?a' = "if js_lt a b then b else a"
  let ?m = "d3_max_from ?a' xs"
  have a': "?a' \<noteq> NaN"
    using "3.prems" js_lt_NaN_right [of a] by auto
  from "3.IH" [OF a'] have m: "?m \<noteq> NaN"
    and att: "?m = ?a' \<or> Some ?m \<in> set xs"
    and ge: "\<not> js_lt ?m ?a'"
    and rest: "\<forall>x. Some x \<in> set xs \<longrightarrow> \<not> js_lt ?m x"
    by blast+
  have ga: "\<not> js_lt ?m a"
  proof (cases "js_lt a b")
    case True
    with ge show ?thesis by (auto dest: js_lt_trans)
  next
    case False
    with ge show ?thesis by simp
  qed
  have gb: "\<not> js_lt ?m b"
  proof (cases "js_lt a b")
    case True
    with ge show ?thesis by simp
  next
    case False
    show ?thesis
    proof
      assume lt: "js_lt ?m b"
      then have b: "b \<noteq> NaN" using js_lt_NaN_right [of ?m] by auto
      have "js_lt ?m a"
      proof (cases "a = b")
        case True
        with lt show ?thesis by simp
      next
        case neq: False
        from js_lt_total [OF "3.prems" b False neq] have "js_lt b a" .
        with lt show ?thesis by (rule js_lt_trans)
      qed
      with ga show False by contradiction
    qed
  qed
  have "?m = a \<or> Some ?m \<in> set (Some b # xs)"
    using att by (cases "js_lt a b") auto
  moreover have "\<forall>x. Some x \<in> set (Some b # xs) \<longrightarrow> \<not> js_lt ?m x"
    using gb rest by auto
  ultimately show ?case
    using m ga by simp
qed

lemma d3_max_None: "(d3_max xs = None) = (\<forall>x. Some x \<in> set xs \<longrightarrow> x = NaN)"
  by (induction xs rule: d3_max.induct) (auto simp: js_ge_self)

lemma d3_max_Some:
  "d3_max xs = Some m \<Longrightarrow>
     m \<noteq> NaN \<and> Some m \<in> set xs \<and> (\<forall>x. Some x \<in> set xs \<longrightarrow> \<not> js_lt m x)"
proof (induction xs rule: d3_max.induct)
  case 1
  then show ?case by simp
next
  case (2 xs)
  then show ?case by simp
next
  case (3 b xs)
  show ?case
  proof (cases "b = NaN")
    case True
    with "3.prems" have "d3_max xs = Some m" by (simp add: js_ge_self)
    with "3.IH"(1) True have "m \<noteq> NaN \<and> Some m \<in> set xs \<and> (\<forall>x. Some x \<in> set xs \<longrightarrow> \<not> js_lt m x)"
      by (simp add: js_ge_self)
    with True show ?thesis by (auto simp: js_lt_NaN_right)
  next
    case False
    with "3.prems" have m: "m = d3_max_from b xs" by (simp add: js_ge_self)
    from d3_max_from_spec [OF False, of xs] show ?thesis
      unfolding m by auto
  qed
qed

lemma makeDataPoint_Inr:
  assumes "makeDataPoint env c v i h = Inr (d, h')"
  shows "category d = js_nth (values_cat c) i"
    and "value_num d = js_nth (values_val v) i"
    and "value_num d \<noteq> None"
    and "color d = (case rowFillColor c i of Some x \<Rightarrow> x | None \<Rightarrow> getColor env (category d))"
    and "selectionId d = nextRef h"
    and "highlighted d = rowHighlighted (highlights_val v) i"
    and "h' = snd (createSelectionId h c i)"
  using assms
  by (auto simp: makeDataPoint_def Let_def createSelectionId_def split: option.splits prod.splits)


lemma pushRows_Inr:
  "pushRows env c v i len dps h = Inr (out, h') \<Longrightarrow>
   \<exists>new. out = dps @ new \<and> length new = len - i \<and>
     (\<forall>k < length new. \<exists>hk hk'. makeDataPoint env c v (i + k) hk = Inr (new ! k, hk')
        \<and> nextRef hk = nextRef h + k)"
proof (induction env c v i len dps h rule: pushRows.induct)
  case (1 env c v i len dps h)
  show ?case
  proof (cases "i < len")
    case False
    with "1.prems" show ?thesis by (simp add: pushRows.simps)
  next
    case True
    with "1.prems" obtain d h1 where mk: "makeDataPoint env c v i h = Inr (d, h1)"
      and rest: "pushRows env c v (Suc i) len (dps @ [d]) h1 = Inr (out, h')"
      by (simp add: pushRows.simps split: sum.splits prod.splits)
    from "1.IH" [OF True mk refl rest]
    obtain new where new: "out = (dps @ [d]) @ new" "length new = len - Suc i"
      and rows: "\<forall>k < length new. \<exists>hk hk'. makeDataPoint env c v (Suc i + k) hk = Inr (new ! k, hk')
        \<and> nextRef hk = nextRef h1 + k"
      by blast
    have h1: "nextRef h1 = Suc (nextRef h)"
      using makeDataPoint_Inr(7) [OF mk] by (simp add: createSelectionId_def)
    have "\<forall>k < length (d # new). \<exists>hk hk'. makeDataPoint env c v (i + k) hk = Inr ((d # new) ! k, hk')
        \<and> nextRef hk = nextRef h + k"
    proof (intro allI impI)
      fix k assume k: "k < length (d # new)"
      show "\<exists>hk hk'. makeDataPoint env c v (i + k) hk = Inr ((d # new) ! k, hk') \<and> nextRef hk = nextRef h + k"
      proof (cases k)
        case 0
        with mk show ?thesis by auto
      next
        case (Suc j)
        with k have "j < length new" by simp
        with rows obtain hk hk' where "makeDataPoint env c v (Suc i + j) hk = Inr (new ! j, hk')"
          "nextRef hk = nextRef h1 + j" by blast
        with Suc h1 show ?thesis by auto
      qed
    qed
    moreover have "out = dps @ (d # new)" using new by simp
    moreover have "length (d # new) = len - i" using new True by simp
    ultimately show ?thesis by blast
  qed
qed


lemma getViewModel_rows:
  assumes cols: "readColumns options = Inr (Some (c, v))"
    and ret: "getViewModel env options h = Inr (vm, h')"
  shows "length (dataPoints vm) = max (length (values_cat c)) (length (values_val v))"
    and "\<And>i. i < length (dataPoints vm) \<Longrightarrow>
           \<exists>hk hk'. makeDataPoint env c v i hk = Inr (dataPoints vm ! i, hk') \<and> nextRef hk = nextRef h + i"
    and "maxValue vm = d3_max (map value_num (dataPoints vm))"
    and "highlights vm = (filter highlighted (dataPoints vm) \<noteq> [])"
proof -
  from cols ret obtain dps where
    push: "pushRows env c v 0 (max (length (values_cat c)) (length (values_val v))) [] h = Inr (dps, h')"
    and vm: "vm = \<lparr>dataPoints = dps, maxValue = d3_max (map value_num dps),
                    highlights = (length (filter highlighted dps) > 0)\<rparr>"
    by (auto simp: getViewModel_def buildViewModel_def split: sum.splits prod.splits)
  from pushRows_Inr [OF push] obtain new where
    new: "dps = [] @ new" "length new = max (length (values_cat c)) (length (values_val v)) - 0"
    and rows: "\<forall>k < length new. \<exists>hk hk'. makeDataPoint env c v (0 + k) hk = Inr (new ! k, hk')
        \<and> nextRef hk = nextRef h + k"
    by blast
  show "length (dataPoints vm) = max (length (values_cat c)) (length (values_val v))"
    using new vm by simp
  show "\<And>i. i < length (dataPoints vm) \<Longrightarrow>
           \<exists>hk hk'. makeDataPoint env c v i hk = Inr (dataPoints vm ! i, hk') \<and> nextRef hk = nextRef h + i"
    using new rows vm by simp
  show "maxValue vm = d3_max (map value_num (dataPoints vm))"
    using vm by simp
  show "highlights vm = (filter highlighted (dataPoints vm) \<noteq> [])"
    using vm by simp
qed

lemma getViewModel_early:
  assumes "readColumns options = Inr None"
  shows "getViewModel env options h = Inr (emptyViewModel, h)"
  using assms by (simp add: getViewModel_def)

lemma getViewModel_Inr_cases:
  assumes "getViewModel env options h = Inr (vm, h')"
  shows "readColumns options = Inr None \<and> vm = emptyViewModel \<and> h' = h
       \<or> (\<exists>c v. readColumns options = Inr (Some (c, v)))"
  using assms by (auto simp: getViewModel_def split: sum.splits option.splits)

lemma makeDataPoint_tooltips:
  assumes "makeDataPoint env c v i h = Inr (d, h')"
  shows "\<exists>src x. source_cat c = Some src \<and> value_num d = Some x \<and>
           tooltips d =
             [\<lparr>tt_displayName = displayName src @ '':'', tt_value = category d\<rparr>,
              \<lparr>tt_displayName = displayName (source_val v) @ '':'', tt_value = Some (toString env x)\<rparr>]"
  using assms
  by (auto simp: makeDataPoint_def Let_def split: option.splits prod.splits)

lemma rowHighlighted_iff:
  "rowHighlighted hl i = (\<exists>hs. hl = Some hs \<and> i < length hs \<and> truthy (hs ! i))"
  by (auto simp: rowHighlighted_def js_nth_def split: option.splits)

lemma rowFillColor_Some:
  "(rowFillColor c i = Some col) =
     (\<exists>objs o_i ob. objects_cat c = Some objs \<and> js_nth objs i = Some (Some o_i) \<and>
        o_i ''dataColor'' = Some ob \<and> ob ''fill'' = Some (Some (Some col)) \<and> col \<noteq> [])"
  by (auto simp: rowFillColor_def getFillColor_def split: option.splits)

lemma clickOpacity_eq:
  "clickOpacity ids d = (if ids = [] then 1 else if selectionId d \<in> set ids then 1 else 1 / 2)"
  by (simp add: clickOpacity_def indexOf_mem)

lemma readColumns_chartOptions:
  "readColumns (chartOptions cs vs hl objs) = Inr (Some (chartCategories cs objs, chartValues vs hl))"
  by (simp add: readColumns_def chartOptions_def chartCategories_def js_nth_def)

lemma readColumns_source:
  "readColumns options = Inr (Some (c, v)) \<Longrightarrow> \<exists>src. source_cat c = Some src"
  by (auto simp: readColumns_def split: option.splits)

lemma makeDataPoint_succeeds:
  "source_cat c = Some src \<Longrightarrow> i < length (values_val v) \<Longrightarrow>
     \<exists>d h'. makeDataPoint env c v i h = Inr (d, h')"
  by (simp add: makeDataPoint_def Let_def js_nth_def split: prod.splits)

lemma makeDataPoint_raises:
  "length (values_val v) \<le> i \<Longrightarrow> makeDataPoint env c v i h = Inl TypeError"
  by (simp add: makeDataPoint_def Let_def js_nth_def split: prod.splits option.splits)

lemma pushRows_succeeds:
  "source_cat c = Some src \<Longrightarrow> len \<le> length (values_val v) \<Longrightarrow>
     \<exists>out h'. pushRows env c v i len dps h = Inr (out, h')"
proof (induction env c v i len dps h rule: pushRows.induct)
  case (1 env c v i len dps h)
  show ?case
  proof (cases "i < len")
    case False
    then show ?thesis by (simp add: pushRows.simps)
  next
    case True
    with "1.prems" have "i < length (values_val v)" by simp
    from makeDataPoint_succeeds [OF "1.prems"(1) this] obtain d h1 where
      mk: "makeDataPoint env c v i h = Inr (d, h1)" by blast
    from "1.IH" [OF True mk refl "1.prems"] obtain out h' where
      "pushRows env c v (Suc i) len (dps @ [d]) h1 = Inr (out, h')" by blast
    with True mk show ?thesis by (simp add: pushRows.simps)
  qed
qed

lemma pushRows_raises:
  "source_cat c = Some src \<Longrightarrow> i \<le> length (values_val v) \<Longrightarrow> length (values_val v) < len \<Longrightarrow>
     pushRows env c v i len dps h = Inl TypeError"
proof (induction env c v i len dps h rule: pushRows.induct)
  case (1 env c v i len dps h)
  from "1.prems" have lt: "i < len" by simp
  show ?case
  proof (cases "i < length (values_val v)")
    case False
    then have "makeDataPoint env c v i h = Inl TypeError"
      by (simp add: makeDataPoint_raises)
    with lt show ?thesis by (simp add: pushRows.simps)
  next
    case True
    from makeDataPoint_succeeds [OF "1.prems"(1) True] obtain d h1 where
      mk: "makeDataPoint env c v i h = Inr (d, h1)" by blast
    from True have "Suc i \<le> length (values_val v)" by simp
    from "1.IH" [OF lt mk refl "1.prems"(1) this "1.prems"(3)]
    have "pushRows env c v (Suc i) len (dps @ [d]) h1 = Inl TypeError" .
    with lt mk show ?thesis by (simp add: pushRows.simps)
  qed
qed

subsection \<open>The guard of \<^verbatim>\<open>getViewModel\<close>\<close>

text \<open>
  Claim C1 says that \<^verbatim>\<open>getViewModel\<close> returns the empty view model, and never raises,
  whenever the data view, its categorical shape, its category source or its values are
  absent, a present but empty \<^verbatim>\<open>categories\<close> list included. The guard reads
  \<^verbatim>\<open>categories[0].source\<close> without testing \<^verbatim>\<open>categories[0]\<close>: on an empty \<^verbatim>\<open>categories\<close>
  list the call raises \<^verbatim>\<open>TypeError\<close>, whatever the values, the host and the services are.
\<close>

theorem getViewModel_empty_categories_raises:
  "getViewModel env
     \<lparr>dataViews = Some [\<lparr>categorical = Some \<lparr>categories = Some [], values_dv = vals\<rparr>\<rparr>],
      viewport = vp\<rparr> h = Inl TypeError"
  by (simp add: getViewModel_def readColumns_def js_nth_def)

text \<open>
  The same happens one step later for a present but empty \<^verbatim>\<open>values\<close> list, at
  \<^verbatim>\<open>values.highlights\<close>.
\<close>

lemma getViewModel_empty_values_raises:
  "getViewModel env
     \<lparr>dataViews = Some [\<lparr>categorical = Some
        \<lparr>categories = Some [\<lparr>source_cat = Some src, values_cat = cs, objects_cat = objs\<rparr>],
         values_dv = Some []\<rparr>\<rparr>],
      viewport = vp\<rparr> h = Inl TypeError"
  by (simp add: getViewModel_def readColumns_def js_nth_def)

text \<open>
  In every other case of the guard, that is when \<^verbatim>\<open>dataViews\<close>, its first data view, the
  categorical shape, the \<^verbatim>\<open>categories\<close> list, the source of the first category column or
  the \<^verbatim>\<open>values\<close> list is missing, the empty view model is returned and the host is left
  as it was.
\<close>

lemma getViewModel_absent:
  assumes "dataViews options = None \<or> dataViews options = Some [] \<or>
     (\<exists>dv rest. dataViews options = Some (dv # rest) \<and>
        (categorical dv = None \<or>
         (\<exists>view. categorical dv = Some view \<and>
            (categories view = None \<or>
             (\<exists>c cs. categories view = Some (c # cs) \<and>
                (source_cat c = None \<or> values_dv view = None))))))"
  shows "getViewModel env options h = Inr (emptyViewModel, h)"
  using assms
  by (auto simp: getViewModel_def readColumns_def js_nth_def split: option.splits)

subsection \<open>The rows\<close>

text \<open>
  Claim C2 says that for every input with categories, category source and values present
  \<^verbatim>\<open>getViewModel\<close> returns one data point per index below the larger of the two column
  lengths, and returns normally also when the lengths differ. With categories \<open>A\<close>, \<open>B\<close>
  and the single value \<open>3\<close> the loop reaches row 1, where \<^verbatim>\<open>values.values[1]\<close> is
  \<^verbatim>\<open>undefined\<close> and \<^verbatim>\<open>toString()\<close> raises \<^verbatim>\<open>TypeError\<close>.
\<close>

theorem getViewModel_more_categories_raises:
  "getViewModel sampleEnv (chartOptions [''A'', ''B''] [Num 3] None None) newHost = Inl TypeError"
  by (simp add: eval_defs)

text \<open>
  In general the call raises whenever the category column is longer than the value
  column; otherwise it returns, with one data point per index below the larger length.
\<close>

lemma getViewModel_raises:
  assumes cols: "readColumns options = Inr (Some (c, v))"
    and lt: "length (values_val v) < length (values_cat c)"
  shows "getViewModel env options h = Inl TypeError"
proof -
  from readColumns_source [OF cols] obtain src where src: "source_cat c = Some src" ..
  from lt have "length (values_val v) < max (length (values_cat c)) (length (values_val v))"
    by simp
  from pushRows_raises [OF src _ this, of 0]
  have "pushRows env c v 0 (max (length (values_cat c)) (length (values_val v))) [] h = Inl TypeError"
    by simp
  with cols show ?thesis
    by (simp add: getViewModel_def buildViewModel_def)
qed

lemma getViewModel_returns:
  assumes cols: "readColumns options = Inr (Some (c, v))"
    and le: "length (values_cat c) \<le> length (values_val v)"
  shows "\<exists>vm h'. getViewModel env options h = Inr (vm, h')
           \<and> length (dataPoints vm) = max (length (values_cat c)) (length (values_val v))"
proof -
  from readColumns_source [OF cols] obtain src where src: "source_cat c = Some src" ..
  from le have "max (length (values_cat c)) (length (values_val v)) \<le> length (values_val v)"
    by simp
  from pushRows_succeeds [OF src this] obtain out h' where
    "pushRows env c v 0 (max (length (values_cat c)) (length (values_val v))) [] h = Inr (out, h')"
    by blast
  with cols have ret: "getViewModel env options h =
      Inr (\<lparr>dataPoints = out, maxValue = d3_max (map value_num out),
            highlights = (length (filter highlighted out) > 0)\<rparr>, h')"
    by (simp add: getViewModel_def buildViewModel_def)
  from getViewModel_rows(1) [OF cols ret] ret show ?thesis by blast
qed

subsection \<open>The maximum\<close>

text \<open>
  Claim C3 says that \<open>maxValue\<close> is the maximum of the values of the data points, and 0
  whenever there are none, also when the guard is passed and the loop produces no point.
  With an empty category column and an empty value column the guard is passed, the loop
  pushes nothing, and \<^verbatim>\<open>d3.max\<close> of the empty list is \<^verbatim>\<open>undefined\<close>: \<open>maxValue\<close> is \<open>None\<close>,
  not \<open>Some 0\<close>.
\<close>

theorem getViewModel_no_rows_maxValue:
  "getViewModel sampleEnv (chartOptions [] [] None None) newHost =
     Inr (\<lparr>dataPoints = [], maxValue = None, highlights = False\<rparr>, newHost)"
  by (simp add: eval_defs)

lemma values_defined:
  assumes "readColumns options = Inr (Some (c, v))"
    and "getViewModel env options h = Inr (vm, h')"
    and "d \<in> set (dataPoints vm)"
  shows "value_num d \<noteq> None"
proof -
  from assms(3) obtain i where "i < length (dataPoints vm)" "d = dataPoints vm ! i"
    by (auto simp: in_set_conv_nth)
  with getViewModel_rows(2) [OF assms(1,2)] show ?thesis
    by (metis makeDataPoint_Inr(3))
qed

text \<open>
  Claim C3 as amended: whenever \<^verbatim>\<open>getViewModel\<close> returns, \<open>maxValue\<close> is 0 on the early
  return of the guard, where there is no data point. When the guard was passed it is the
  maximum of the values of the data points that are not \<^verbatim>\<open>NaN\<close>, a value that some data
  point has and that no value exceeds, if there is such a value; and it is \<^verbatim>\<open>undefined\<close> if
  there is none, that is when there is no data point or every value is \<^verbatim>\<open>NaN\<close>.
\<close>

theorem getViewModel_maxValue:
  assumes ret: "getViewModel env options h = Inr (vm, h')"
  shows "(readColumns options = Inr None \<longrightarrow> dataPoints vm = [] \<and> maxValue vm = Some (Num 0))
       \<and> (readColumns options \<noteq> Inr None \<longrightarrow>
            ((\<forall>d \<in> set (dataPoints vm). value_num d = Some NaN) \<longrightarrow> maxValue vm = None)
          \<and> ((\<exists>d \<in> set (dataPoints vm). value_num d \<noteq> Some NaN) \<longrightarrow>
               (\<exists>m. maxValue vm = Some m \<and> m \<noteq> NaN
                  \<and> (\<exists>d \<in> set (dataPoints vm). value_num d = Some m)
                  \<and> (\<forall>d \<in> set (dataPoints vm). \<forall>x. value_num d = Some x \<longrightarrow> \<not> js_lt m x))))"
proof -
  from getViewModel_Inr_cases [OF ret]
  show ?thesis
  proof (elim disjE conjE exE)
    assume "readColumns options = Inr None" "vm = emptyViewModel"
    then show ?thesis by (simp add: emptyViewModel_def)
  next
    fix c v assume cols: "readColumns options = Inr (Some (c, v))"
    let ?xs = "map value_num (dataPoints vm)"
    have mx: "maxValue vm = d3_max ?xs"
      by (rule getViewModel_rows(3) [OF cols ret])
    have mem: "(Some x \<in> set ?xs) = (\<exists>d \<in> set (dataPoints vm). value_num d = Some x)" for x
      by (auto simp: image_iff intro: sym)
    have none: "maxValue vm = None" if "\<forall>d \<in> set (dataPoints vm). value_num d = Some NaN"
    proof -
      from that have "\<forall>x. Some x \<in> set ?xs \<longrightarrow> x = NaN"
        unfolding mem by auto
      then show ?thesis unfolding mx d3_max_None .
    qed
    have some: "\<exists>m. maxValue vm = Some m \<and> m \<noteq> NaN
                  \<and> (\<exists>d \<in> set (dataPoints vm). value_num d = Some m)
                  \<and> (\<forall>d \<in> set (dataPoints vm). \<forall>x. value_num d = Some x \<longrightarrow> \<not> js_lt m x)"
      if "\<exists>d \<in> set (dataPoints vm). value_num d \<noteq> Some NaN"
    proof -
      from that obtain d where d: "d \<in> set (dataPoints vm)" "value_num d \<noteq> Some NaN" by blast
      from values_defined [OF cols ret d(1)] d(2) obtain x where
        x: "value_num d = Some x" "x \<noteq> NaN" by auto
      with d(1) have "Some x \<in> set ?xs" unfolding mem by blast
      with x(2) have "d3_max ?xs \<noteq> None" unfolding d3_max_None by blast
      then obtain m where m: "d3_max ?xs = Some m" by auto
      from d3_max_Some [OF m] have "m \<noteq> NaN" "Some m \<in> set ?xs"
        "\<forall>x. Some x \<in> set ?xs \<longrightarrow> \<not> js_lt m x" by blast+
      then show ?thesis unfolding mx m mem by blast
    qed
    from cols none some show ?thesis by simp
  qed
qed

text \<open>
  The three rows \<open>A\<close>, \<open>B\<close>, \<open>C\<close> with values 3, 1, 2 have the maximum 3; the two rows
  with values \<^verbatim>\<open>NaN\<close> and 1 have the maximum 1; the single row with value \<^verbatim>\<open>NaN\<close> has none.
\<close>

theorem getViewModel_maxValue_witness:
  "\<exists>vm h' vm2 h2' vm3 h3'.
       getViewModel sampleEnv (chartOptions [''A'', ''B'', ''C''] [Num 3, Num 1, Num 2] None None)
         newHost = Inr (vm, h')
     \<and> map value_num (dataPoints vm) = [Some (Num 3), Some (Num 1), Some (Num 2)]
     \<and> maxValue vm = Some (Num 3)
     \<and> getViewModel sampleEnv (chartOptions [''A'', ''B''] [NaN, Num 1] None None) newHost
         = Inr (vm2, h2')
     \<and> map value_num (dataPoints vm2) = [Some NaN, Some (Num 1)]
     \<and> maxValue vm2 = Some (Num 1)
     \<and> getViewModel sampleEnv (chartOptions [''A''] [NaN] None None) newHost = Inr (vm3, h3')
     \<and> map value_num (dataPoints vm3) = [Some NaN]
     \<and> maxValue vm3 = None"
proof -
  let ?o1 = "chartOptions [''A'', ''B'', ''C''] [Num 3, Num 1, Num 2] None None"
  let ?o2 = "chartOptions [''A'', ''B''] [NaN, Num 1] None None"
  let ?o3 = "chartOptions [''A''] [NaN] None None"
  let ?r1 = "getViewModel sampleEnv ?o1 newHost"
  let ?r2 = "getViewModel sampleEnv ?o2 newHost"
  let ?r3 = "getViewModel sampleEnv ?o3 newHost"
  define vm where "vm = fst (projr ?r1)"
  define h' where "h' = snd (projr ?r1)"
  define vm2 where "vm2 = fst (projr ?r2)"
  define h2' where "h2' = snd (projr ?r2)"
  define vm3 where "vm3 = fst (projr ?r3)"
  define h3' where "h3' = snd (projr ?r3)"
  have ev1: "?r1 = Inr (vm, h')"
    unfolding vm_def h'_def by (simp add: eval_defs)
  have ev2: "?r2 = Inr (vm2, h2')"
    unfolding vm2_def h2'_def by (simp add: eval_defs)
  have ev3: "?r3 = Inr (vm3, h3')"
    unfolding vm3_def h3'_def by (simp add: eval_defs)
  have v1: "map value_num (dataPoints vm) = [Some (Num 3), Some (Num 1), Some (Num 2)]"
    unfolding vm_def by (simp add: eval_defs)
  have v2: "map value_num (dataPoints vm2) = [Some NaN, Some (Num 1)]"
    unfolding vm2_def by (simp add: eval_defs)
  have v3: "map value_num (dataPoints vm3) = [Some NaN]"
    unfolding vm3_def by (simp add: eval_defs)
  have c1: "readColumns ?o1 \<noteq> Inr None" and c2: "readColumns ?o2 \<noteq> Inr None"
    and c3: "readColumns ?o3 \<noteq> Inr None"
    by (simp_all add: readColumns_chartOptions)
  have e1: "\<exists>d \<in> set (dataPoints vm). value_num d \<noteq> Some NaN"
    unfolding vm_def by (simp add: eval_defs)
  have has3: "\<exists>d \<in> set (dataPoints vm). value_num d = Some (Num 3)"
    unfolding vm_def by (simp add: eval_defs)
  have vals1: "\<forall>d \<in> set (dataPoints vm).
      value_num d = Some (Num 3) \<or> value_num d = Some (Num 1) \<or> value_num d = Some (Num 2)"
    unfolding vm_def by (simp add: eval_defs)
  have e2: "\<exists>d \<in> set (dataPoints vm2). value_num d \<noteq> Some NaN"
    unfolding vm2_def by (simp add: eval_defs)
  have vals2: "\<forall>d \<in> set (dataPoints vm2). value_num d = Some NaN \<or> value_num d = Some (Num 1)"
    unfolding vm2_def by (simp add: eval_defs)
  have vals3: "\<forall>d \<in> set (dataPoints vm3). value_num d = Some NaN"
    unfolding vm3_def by (simp add: eval_defs)
  have m1: "maxValue vm = Some (Num 3)"
  proof -
    from getViewModel_maxValue [OF ev1] c1 e1 obtain m where
      m: "maxValue vm = Some m"
      and att: "\<exists>d \<in> set (dataPoints vm). value_num d = Some m"
      and top: "\<forall>d \<in> set (dataPoints vm). \<forall>x. value_num d = Some x \<longrightarrow> \<not> js_lt m x"
      by blast
    from att vals1 have "m = Num 3 \<or> m = Num 1 \<or> m = Num 2" by auto
    moreover from has3 top have "\<not> js_lt m (Num 3)" by blast
    ultimately have "m = Num 3" by auto
    with m show ?thesis by simp
  qed
  have m2: "maxValue vm2 = Some (Num 1)"
  proof -
    from getViewModel_maxValue [OF ev2] c2 e2 obtain m where
      m: "maxValue vm2 = Some m" "m \<noteq> NaN"
      and att: "\<exists>d \<in> set (dataPoints vm2). value_num d = Some m"
      by blast
    from att vals2 m(2) have "m = Num 1" by auto
    with m show ?thesis by simp
  qed
  have m3: "maxValue vm3 = None"
    using getViewModel_maxValue [OF ev3] c3 vals3 by blast
  show ?thesis
    apply (rule exI [of _ vm])
    apply (rule exI [of _ h'])
    apply (rule exI [of _ vm2])
    apply (rule exI [of _ h2'])
    apply (rule exI [of _ vm3])
    apply (rule exI [of _ h3'])
    apply (intro conjI)
    apply (rule ev1 v1 m1 ev2 v2 m2 ev3 v3 m3)+
    done
qed

subsection \<open>Highlights\<close>

text \<open>
  Claim C4: whenever \<^verbatim>\<open>getViewModel\<close> returns, \<open>highlights\<close> is true exactly when some data
  point is highlighted, and the data point of row \<open>i\<close> is highlighted exactly when the
  value column has a highlight array whose entry \<open>i\<close> exists and is truthy.
\<close>

theorem getViewModel_highlights:
  assumes ret: "getViewModel env options h = Inr (vm, h')"
  shows "(highlights vm \<longleftrightarrow> (\<exists>d \<in> set (dataPoints vm). highlighted d))
       \<and> (\<forall>c v i. readColumns options = Inr (Some (c, v)) \<and> i < length (dataPoints vm) \<longrightarrow>
            (highlighted (dataPoints vm ! i) \<longleftrightarrow>
               (\<exists>hs. highlights_val v = Some hs \<and> i < length hs \<and> truthy (hs ! i))))"
proof (rule conjI)
  from getViewModel_Inr_cases [OF ret]
  show "highlights vm \<longleftrightarrow> (\<exists>d \<in> set (dataPoints vm). highlighted d)"
  proof (elim disjE conjE exE)
    assume "vm = emptyViewModel"
    then show ?thesis by (simp add: emptyViewModel_def)
  next
    fix c v assume cols: "readColumns options = Inr (Some (c, v))"
    have "highlights vm = (filter highlighted (dataPoints vm) \<noteq> [])"
      by (rule getViewModel_rows(4) [OF cols ret])
    then show ?thesis by (simp add: filter_empty_conv)
  qed
next
  show "\<forall>c v i. readColumns options = Inr (Some (c, v)) \<and> i < length (dataPoints vm) \<longrightarrow>
            (highlighted (dataPoints vm ! i) \<longleftrightarrow>
               (\<exists>hs. highlights_val v = Some hs \<and> i < length hs \<and> truthy (hs ! i)))"
  proof (intro allI impI, elim conjE)
    fix c v i
    assume cols: "readColumns options = Inr (Some (c, v))" and i: "i < length (dataPoints vm)"
    from getViewModel_rows(2) [OF cols ret i] obtain hk hk' where
      "makeDataPoint env c v i hk = Inr (dataPoints vm ! i, hk')" by blast
    then have "highlighted (dataPoints vm ! i) = rowHighlighted (highlights_val v) i"
      by (rule makeDataPoint_Inr(6))
    then show "highlighted (dataPoints vm ! i) \<longleftrightarrow>
               (\<exists>hs. highlights_val v = Some hs \<and> i < length hs \<and> truthy (hs ! i))"
      by (simp only: rowHighlighted_iff)
  qed
qed

text \<open>
  With the highlight array 1, 0, 0 only the first of three rows is highlighted.
\<close>

theorem getViewModel_highlights_witness:
  "\<exists>vm h'. getViewModel sampleEnv
        (chartOptions [''A'', ''B'', ''C''] [Num 3, Num 1, Num 2] (Some [PNumber (Num 1), PNumber (Num 0), PNumber (Num 0)]) None)
        newHost = Inr (vm, h')
     \<and> map highlighted (dataPoints vm) = [True, False, False]
     \<and> highlights vm
     \<and> (highlights vm \<longleftrightarrow> (\<exists>d \<in> set (dataPoints vm). highlighted d))
     \<and> (highlighted (dataPoints vm ! 0) \<longleftrightarrow>
          (\<exists>hs. highlights_val (chartValues [Num 3, Num 1, Num 2] (Some [PNumber (Num 1), PNumber (Num 0), PNumber (Num 0)])) = Some hs
             \<and> 0 < length hs \<and> truthy (hs ! 0)))"
proof -
  let ?hl = "Some [PNumber (Num 1), PNumber (Num 0), PNumber (Num 0)]"
  let ?opts = "chartOptions [''A'', ''B'', ''C''] [Num 3, Num 1, Num 2] ?hl None"
  let ?r = "getViewModel sampleEnv ?opts newHost"
  define vm where "vm = fst (projr ?r)"
  define h' where "h' = snd (projr ?r)"
  have ev: "?r = Inr (vm, h')"
    unfolding vm_def h'_def by (simp add: eval_defs)
  have hls: "map highlighted (dataPoints vm) = [True, False, False]"
    unfolding vm_def by (simp add: eval_defs)
  have hl: "highlights vm"
    unfolding vm_def by (simp add: eval_defs)
  from hls have len: "0 < length (dataPoints vm)" by auto
  note inst = getViewModel_highlights [OF ev]
  from inst have a: "highlights vm \<longleftrightarrow> (\<exists>d \<in> set (dataPoints vm). highlighted d)" by blast
  from inst readColumns_chartOptions [of "[''A'', ''B'', ''C'']" "[Num 3, Num 1, Num 2]" ?hl None] len
  have b: "highlighted (dataPoints vm ! 0) \<longleftrightarrow>
          (\<exists>hs. highlights_val (chartValues [Num 3, Num 1, Num 2] ?hl) = Some hs \<and> 0 < length hs \<and> truthy (hs ! 0))"
    by blast
  show ?thesis
    using ev hls hl a b by (intro exI [of _ vm] exI [of _ h'] conjI)
qed

subsection \<open>Tooltips\<close>

text \<open>
  Claim C8: the tooltips of the data point of row \<open>i\<close> are exactly two entries, the
  display name of the category field followed by a colon with the category of the row, and
  the display name of the value field followed by a colon with the value of the row
  printed by \<^verbatim>\<open>toString\<close>.
\<close>

theorem getViewModel_tooltips:
  assumes cols: "readColumns options = Inr (Some (c, v))"
    and ret: "getViewModel env options h = Inr (vm, h')"
    and i: "i < length (dataPoints vm)"
  shows "\<exists>src x. source_cat c = Some src \<and> js_nth (values_val v) i = Some x
       \<and> category (dataPoints vm ! i) = js_nth (values_cat c) i
       \<and> value_num (dataPoints vm ! i) = Some x
       \<and> tooltips (dataPoints vm ! i) =
           [\<lparr>tt_displayName = displayName src @ '':'', tt_value = category (dataPoints vm ! i)\<rparr>,
            \<lparr>tt_displayName = displayName (source_val v) @ '':'',
             tt_value = Some (toString env x)\<rparr>]"
proof -
  from getViewModel_rows(2) [OF cols ret i] obtain hk hk' where
    mk: "makeDataPoint env c v i hk = Inr (dataPoints vm ! i, hk')" by blast
  from makeDataPoint_tooltips [OF mk] obtain src x where
    "source_cat c = Some src" "value_num (dataPoints vm ! i) = Some x"
    "tooltips (dataPoints vm ! i) =
       [\<lparr>tt_displayName = displayName src @ '':'', tt_value = category (dataPoints vm ! i)\<rparr>,
        \<lparr>tt_displayName = displayName (source_val v) @ '':'', tt_value = Some (toString env x)\<rparr>]"
    by blast
  moreover note makeDataPoint_Inr(1,2) [OF mk]
  ultimately show ?thesis by simp
qed

text \<open>
  Row 1 of the example: category \<open>B\<close>, value 1.
\<close>

theorem getViewModel_tooltips_witness:
  "\<exists>vm h'. getViewModel sampleEnv (chartOptions [''A'', ''B'', ''C''] [Num 3, Num 1, Num 2] None None) newHost
       = Inr (vm, h')
     \<and> readColumns (chartOptions [''A'', ''B'', ''C''] [Num 3, Num 1, Num 2] None None)
       = Inr (Some (chartCategories [''A'', ''B'', ''C''] None, chartValues [Num 3, Num 1, Num 2] None))
     \<and> 1 < length (dataPoints vm)
     \<and> tooltips (dataPoints vm ! 1) =
         [\<lparr>tt_displayName = ''Category:'', tt_value = Some ''B''\<rparr>,
          \<lparr>tt_displayName = ''Sales:'', tt_value = Some ''1''\<rparr>]"
proof -
  let ?opts = "chartOptions [''A'', ''B'', ''C''] [Num 3, Num 1, Num 2] None None"
  let ?r = "getViewModel sampleEnv ?opts newHost"
  define vm where "vm = fst (projr ?r)"
  define h' where "h' = snd (projr ?r)"
  have ev: "?r = Inr (vm, h')"
    unfolding vm_def h'_def by (simp add: eval_defs)
  have cols: "readColumns ?opts
       = Inr (Some (chartCategories [''A'', ''B'', ''C''] None, chartValues [Num 3, Num 1, Num 2] None))"
    by (rule readColumns_chartOptions)
  have len: "1 < length (dataPoints vm)"
    unfolding vm_def by (simp add: eval_defs)
  from getViewModel_tooltips [OF cols ev len] obtain src x where
    src: "source_cat (chartCategories [''A'', ''B'', ''C''] None) = Some src"
    and x: "js_nth (values_val (chartValues [Num 3, Num 1, Num 2] None)) 1 = Some x"
    and cat: "category (dataPoints vm ! 1) = js_nth (values_cat (chartCategories [''A'', ''B'', ''C''] None)) 1"
    and tt: "tooltips (dataPoints vm ! 1) =
           [\<lparr>tt_displayName = displayName src @ '':'', tt_value = category (dataPoints vm ! 1)\<rparr>,
            \<lparr>tt_displayName = displayName (source_val (chartValues [Num 3, Num 1, Num 2] None)) @ '':'',
             tt_value = Some (toString sampleEnv x)\<rparr>]"
    by blast
  from src have "displayName src = ''Category''" by (auto simp: chartCategories_def)
  moreover from x have "x = Num 1" by (simp add: chartValues_def js_nth_def)
  moreover from cat have "category (dataPoints vm ! 1) = Some ''B''"
    by (simp add: chartCategories_def js_nth_def)
  ultimately have "tooltips (dataPoints vm ! 1) =
         [\<lparr>tt_displayName = ''Category:'', tt_value = Some ''B''\<rparr>,
          \<lparr>tt_displayName = ''Sales:'', tt_value = Some ''1''\<rparr>]"
    using tt by (simp add: chartValues_def sampleEnv_def)
  with ev cols len show ?thesis
    by (intro exI [of _ vm] exI [of _ h'] conjI)
qed

subsection \<open>Colours\<close>

lemma getViewModel_color:
  assumes cols: "readColumns options = Inr (Some (c, v))"
    and ret: "getViewModel env options h = Inr (vm, h')"
    and i: "i < length (dataPoints vm)"
  shows "color (dataPoints vm ! i) =
           (case rowFillColor c i of Some x \<Rightarrow> x | None \<Rightarrow> getColor env (category (dataPoints vm ! i)))"
proof -
  from getViewModel_rows(2) [OF cols ret i] obtain hk hk' where
    mk: "makeDataPoint env c v i hk = Inr (dataPoints vm ! i, hk')" by blast
  then show ?thesis by (rule makeDataPoint_Inr(4))
qed

text \<open>
  Claim C9: the colour of the data point of row \<open>i\<close> is the override when the category
  column has a row object at \<open>i\<close> whose \<^verbatim>\<open>dataColor\<close> object has a solid \<^verbatim>\<open>fill\<close> with a
  (non-empty) colour, and the palette colour of the category otherwise; two rows without
  an override and with the same category, of this or of any other update, get the same
  colour from the same palette.
\<close>

theorem getViewModel_row_color:
  assumes cols: "readColumns options = Inr (Some (c, v))"
    and ret: "getViewModel env options h = Inr (vm, h')"
    and i: "i < length (dataPoints vm)"
  shows "(\<forall>objs o_i ob col. objects_cat c = Some objs \<and> js_nth objs i = Some (Some o_i) \<and>
            o_i ''dataColor'' = Some ob \<and> ob ''fill'' = Some (Some (Some col)) \<and> col \<noteq> []
            \<longrightarrow> color (dataPoints vm ! i) = col)
       \<and> ((\<nexists>objs o_i ob col. objects_cat c = Some objs \<and> js_nth objs i = Some (Some o_i) \<and>
            o_i ''dataColor'' = Some ob \<and> ob ''fill'' = Some (Some (Some col)) \<and> col \<noteq> [])
            \<longrightarrow> color (dataPoints vm ! i) = getColor env (category (dataPoints vm ! i)))
       \<and> (\<forall>options2 h2 c2 v2 vm2 h2' j.
            readColumns options2 = Inr (Some (c2, v2)) \<and>
            getViewModel env options2 h2 = Inr (vm2, h2') \<and> j < length (dataPoints vm2) \<and>
            rowFillColor c i = None \<and> rowFillColor c2 j = None \<and>
            category (dataPoints vm2 ! j) = category (dataPoints vm ! i)
            \<longrightarrow> color (dataPoints vm2 ! j) = color (dataPoints vm ! i))"
proof (intro conjI allI impI)
  fix objs o_i ob col
  assume "objects_cat c = Some objs \<and> js_nth objs i = Some (Some o_i) \<and>
            o_i ''dataColor'' = Some ob \<and> ob ''fill'' = Some (Some (Some col)) \<and> col \<noteq> []"
  then have "rowFillColor c i = Some col"
    unfolding rowFillColor_Some by blast
  with getViewModel_color [OF cols ret i] show "color (dataPoints vm ! i) = col" by simp
next
  assume "\<nexists>objs o_i ob col. objects_cat c = Some objs \<and> js_nth objs i = Some (Some o_i) \<and>
            o_i ''dataColor'' = Some ob \<and> ob ''fill'' = Some (Some (Some col)) \<and> col \<noteq> []"
  then have "\<forall>col. rowFillColor c i \<noteq> Some col"
    unfolding rowFillColor_Some by blast
  then have "rowFillColor c i = None" by (cases "rowFillColor c i") auto
  with getViewModel_color [OF cols ret i]
  show "color (dataPoints vm ! i) = getColor env (category (dataPoints vm ! i))" by simp
next
  fix options2 h2 c2 v2 vm2 h2' j
  assume a: "readColumns options2 = Inr (Some (c2, v2)) \<and>
            getViewModel env options2 h2 = Inr (vm2, h2') \<and> j < length (dataPoints vm2) \<and>
            rowFillColor c i = None \<and> rowFillColor c2 j = None \<and>
            category (dataPoints vm2 ! j) = category (dataPoints vm ! i)"
  then have "color (dataPoints vm2 ! j) = getColor env (category (dataPoints vm2 ! j))"
    using getViewModel_color [of options2 c2 v2 env h2 vm2 h2' j] by simp
  moreover have "color (dataPoints vm ! i) = getColor env (category (dataPoints vm ! i))"
    using a getViewModel_color [OF cols ret i] by simp
  ultimately show "color (dataPoints vm2 ! j) = color (dataPoints vm ! i)"
    using a by simp
qed

text \<open>
  Three rows of which the second has a red override; the category \<open>A\<close> gets the same
  palette colour in a later update where it is in row 1.
\<close>

theorem getViewModel_row_color_witness:
  "\<exists>vm h' vm2 h2'.
       getViewModel sampleEnv
         (chartOptions [''A'', ''B'', ''C''] [Num 3, Num 1, Num 2] None (Some [None, Some (fillObjects ''#FF0000'')]))
         newHost = Inr (vm, h')
     \<and> getViewModel sampleEnv (chartOptions [''C'', ''A''] [Num 2, Num 3] None None) h' = Inr (vm2, h2')
     \<and> map color (dataPoints vm) = [''#01B8AA'', ''#FF0000'', ''#FD625E'']
     \<and> color (dataPoints vm ! 1) = ''#FF0000''
     \<and> color (dataPoints vm ! 0) = getColor sampleEnv (category (dataPoints vm ! 0))
     \<and> color (dataPoints vm2 ! 1) = color (dataPoints vm ! 0)"
proof -
  let ?objs = "Some [None, Some (fillObjects ''#FF0000'')]"
  let ?opts = "chartOptions [''A'', ''B'', ''C''] [Num 3, Num 1, Num 2] None ?objs"
  let ?c = "chartCategories [''A'', ''B'', ''C''] ?objs"
  let ?r = "getViewModel sampleEnv ?opts newHost"
  define vm where "vm = fst (projr ?r)"
  define h' where "h' = snd (projr ?r)"
  let ?opts2 = "chartOptions [''C'', ''A''] [Num 2, Num 3] None None"
  let ?c2 = "chartCategories [''C'', ''A''] None"
  let ?r2 = "getViewModel sampleEnv ?opts2 h'"
  define vm2 where "vm2 = fst (projr ?r2)"
  define h2' where "h2' = snd (projr ?r2)"
  have ev: "?r = Inr (vm, h')"
    unfolding vm_def h'_def by (simp add: eval_defs)
  have ev2: "?r2 = Inr (vm2, h2')"
    unfolding vm2_def h2'_def by (simp add: eval_defs)
  have cols: "readColumns ?opts = Inr (Some (?c, chartValues [Num 3, Num 1, Num 2] None))"
    by (rule readColumns_chartOptions)
  have cols2: "readColumns ?opts2 = Inr (Some (?c2, chartValues [Num 2, Num 3] None))"
    by (rule readColumns_chartOptions)
  have colors: "map color (dataPoints vm) = [''#01B8AA'', ''#FF0000'', ''#FD625E'']"
    unfolding vm_def by (simp add: eval_defs)
  then have len1: "1 < length (dataPoints vm)" and len0: "0 < length (dataPoints vm)"
    by auto
  have len2: "1 < length (dataPoints vm2)"
    unfolding vm2_def by (simp add: eval_defs)
  have cat2: "category (dataPoints vm2 ! 1) = category (dataPoints vm ! 0)"
    unfolding vm2_def vm_def by (simp add: eval_defs)
  have ov: "objects_cat ?c = ?objs \<and> js_nth [None, Some (fillObjects ''#FF0000'')] 1
        = Some (Some (fillObjects ''#FF0000''))
      \<and> fillObjects ''#FF0000'' ''dataColor'' = Some [''fill'' \<mapsto> Some (Some ''#FF0000'')]
      \<and> [''fill'' \<mapsto> Some (Some ''#FF0000'')] ''fill'' = Some (Some (Some ''#FF0000''))
      \<and> ''#FF0000'' \<noteq> []"
    by (simp add: chartCategories_def js_nth_def fillObjects_def)
  have no0: "rowFillColor ?c 0 = None"
    by (simp add: rowFillColor_def chartCategories_def js_nth_def)
  have no2: "rowFillColor ?c2 1 = None"
    by (simp add: rowFillColor_def chartCategories_def)
  from getViewModel_row_color [OF cols ev len1] ov
  have a: "color (dataPoints vm ! 1) = ''#FF0000''" by blast
  from no0 have "\<nexists>objs o_i ob col. objects_cat ?c = Some objs \<and> js_nth objs 0 = Some (Some o_i) \<and>
            o_i ''dataColor'' = Some ob \<and> ob ''fill'' = Some (Some (Some col)) \<and> col \<noteq> []"
    using rowFillColor_Some [of ?c 0] by simp
  with getViewModel_row_color [OF cols ev len0]
  have b: "color (dataPoints vm ! 0) = getColor sampleEnv (category (dataPoints vm ! 0))" by blast
  from getViewModel_row_color [OF cols ev len0] cols2 ev2 len2 no0 no2 cat2
  have c: "color (dataPoints vm2 ! 1) = color (dataPoints vm ! 0)" by blast
  show ?thesis
    using ev ev2 colors a b c
    by (intro exI [of _ vm] exI [of _ h'] exI [of _ vm2] exI [of _ h2'] conjI)
qed

subsection \<open>Bars and axes\<close>

text \<open>
  Claim C6: after an update every bar has \<^verbatim>\<open>fill-opacity\<close> 1 when the view model has no
  highlight, and otherwise 1 when its data point is highlighted and 0.5 when it is not.
\<close>

theorem update_fill_opacity:
  assumes upd: "update env s options vis = Inr vis'"
  shows "\<exists>vm. viewModel vis' = Some vm \<and> map datum (barGroup vis') = dataPoints vm
       \<and> (\<not> highlights vm \<longrightarrow> (\<forall>b \<in> set (barGroup vis'). fill_opacity b = 1))
       \<and> (highlights vm \<longrightarrow>
            (\<forall>b \<in> set (barGroup vis'). fill_opacity b = (if highlighted (datum b) then 1 else 1 / 2)))"
proof -
  from upd obtain vm where vm: "viewModel vis' = Some vm" and bars: "barGroup vis' = joinBars vm"
    by (auto simp: update_def Let_def split: sum.splits prod.splits)
  have "map datum (joinBars vm) = dataPoints vm"
    by (simp add: joinBars_def comp_def)
  moreover have "\<forall>b \<in> set (joinBars vm). fill_opacity b = highlightOpacity vm (datum b)"
    by (auto simp: joinBars_def)
  ultimately show ?thesis
    using vm bars by (intro exI [of _ vm]) (simp add: highlightOpacity_def)
qed

text \<open>
  With the highlight array 1, 0, 0 the three bars get the opacities 1, 0.5, 0.5.
\<close>

theorem update_fill_opacity_witness:
  "\<exists>vis' vm. update sampleEnv (showSettings True)
        (chartOptions [''A'', ''B'', ''C''] [Num 3, Num 1, Num 2] (Some [PNumber (Num 1), PNumber (Num 0), PNumber (Num 0)]) None)
        (constructor newHost) = Inr vis'
     \<and> viewModel vis' = Some vm \<and> highlights vm
     \<and> map (highlighted \<circ> datum) (barGroup vis') = [True, False, False]
     \<and> map fill_opacity (barGroup vis') = [1, 1 / 2, 1 / 2]
     \<and> (\<forall>b \<in> set (barGroup vis'). fill_opacity b = (if highlighted (datum b) then 1 else 1 / 2))"
proof -
  let ?u = "update sampleEnv (showSettings True)
        (chartOptions [''A'', ''B'', ''C''] [Num 3, Num 1, Num 2] (Some [PNumber (Num 1), PNumber (Num 0), PNumber (Num 0)]) None)
        (constructor newHost)"
  define vis' where "vis' = projr ?u"
  define vm where "vm = the (viewModel vis')"
  have ev: "?u = Inr vis'"
    unfolding vis'_def by (simp add: eval_defs render_defs)
  have vm: "viewModel vis' = Some vm"
    unfolding vm_def vis'_def by (simp add: eval_defs render_defs)
  have hl: "highlights vm"
    unfolding vm_def vis'_def by (simp add: eval_defs render_defs)
  have hls: "map (highlighted \<circ> datum) (barGroup vis') = [True, False, False]"
    unfolding vis'_def by (simp add: eval_defs render_defs)
  have ops: "map fill_opacity (barGroup vis') = [1, 1 / 2, 1 / 2]"
    unfolding vis'_def by (simp add: eval_defs render_defs)
  from update_fill_opacity [OF ev] vm hl
  have all: "\<forall>b \<in> set (barGroup vis'). fill_opacity b = (if highlighted (datum b) then 1 else 1 / 2)"
    by auto
  show ?thesis
    using ev vm hl hls ops all by (intro exI [of _ vis'] exI [of _ vm] conjI)
qed

text \<open>
  Claim C7: \<open>xAxisPadding\<close> is the bottom margin, 30, when \<^verbatim>\<open>xAxis.show\<close> is set and 10
  otherwise; an update translates the bottom axis group by the height less the padding,
  sets the visibility of its tick texts to \<^verbatim>\<open>visible\<close> or \<^verbatim>\<open>hidden\<close> accordingly, and draws
  the bottom axis over the categories in both cases.
\<close>

theorem update_xAxis:
  "xAxisPadding s = (if xAxis_show (xAxis s) then m_bottom margin else 10) \<and> m_bottom margin = 30
   \<and> (\<forall>vis'. update env s options vis = Inr vis' \<longrightarrow>
        transform (xAxisGroup vis') = Some (0, height (viewport options) - xAxisPadding s)
      \<and> textVisibility (xAxisGroup vis') =
          Some (if xAxis_show (xAxis s) then ''visible'' else ''hidden'')
      \<and> (\<exists>vm. viewModel vis' = Some vm \<and>
            axis (xAxisGroup vis') =
              Some \<lparr>scale = OrdinalBands (map category (dataPoints vm))
                               (30, width (viewport options)) (1 / 2),
                     orient = ''bottom'', tickSize = 1\<rparr>))"
  by (auto simp: xAxisPadding_def xAxisTextVisible_def margin_def update_def Let_def
      split: sum.splits prod.splits)

text \<open>
  An update with \<^verbatim>\<open>xAxis.show\<close> off in a viewport of height 300.
\<close>

theorem update_xAxis_witness:
  "\<exists>vis'. update sampleEnv (showSettings False)
        (chartOptions [''A'', ''B'', ''C''] [Num 3, Num 1, Num 2] None None) (constructor newHost) = Inr vis'
     \<and> xAxisPadding (showSettings False) = 10
     \<and> xAxisPadding (showSettings True) = 30
     \<and> transform (xAxisGroup vis') = Some (0, 290)
     \<and> textVisibility (xAxisGroup vis') = Some ''hidden''
     \<and> axis (xAxisGroup vis') =
          Some \<lparr>scale = OrdinalBands [Some ''A'', Some ''B'', Some ''C''] (30, 400) (1 / 2),
                 orient = ''bottom'', tickSize = 1\<rparr>"
proof -
  let ?opts = "chartOptions [''A'', ''B'', ''C''] [Num 3, Num 1, Num 2] None None"
  let ?u = "update sampleEnv (showSettings False) ?opts (constructor newHost)"
  define vis' where "vis' = projr ?u"
  have ev: "?u = Inr vis'"
    unfolding vis'_def by (simp add: eval_defs render_defs)
  have cats: "\<forall>vm. viewModel vis' = Some vm \<longrightarrow>
      map category (dataPoints vm) = [Some ''A'', Some ''B'', Some ''C'']"
    unfolding vis'_def by (simp add: eval_defs render_defs)
  have vp: "height (viewport ?opts) = 300" "width (viewport ?opts) = 400"
    by (simp_all add: chartOptions_def)
  have sh: "\<not> xAxis_show (xAxis (showSettings False))" "xAxis_show (xAxis (showSettings True))"
    by (simp_all add: showSettings_def)
  note inst = update_xAxis [of "showSettings False" sampleEnv ?opts "constructor newHost"]
  from inst sh have p: "xAxisPadding (showSettings False) = 10" by simp
  from update_xAxis [of "showSettings True" sampleEnv ?opts "constructor newHost"] sh
  have p': "xAxisPadding (showSettings True) = 30" by simp
  from inst ev p vp have t: "transform (xAxisGroup vis') = Some (0, 290)" by simp
  from inst ev sh have v: "textVisibility (xAxisGroup vis') = Some ''hidden''" by simp
  from inst ev obtain vm where "viewModel vis' = Some vm"
    "axis (xAxisGroup vis') =
       Some \<lparr>scale = OrdinalBands (map category (dataPoints vm)) (30, width (viewport ?opts)) (1 / 2),
              orient = ''bottom'', tickSize = 1\<rparr>"
    by blast
  with cats vp have a: "axis (xAxisGroup vis') =
          Some \<lparr>scale = OrdinalBands [Some ''A'', Some ''B'', Some ''C''] (30, 400) (1 / 2),
                 orient = ''bottom'', tickSize = 1\<rparr>"
    by simp
  show ?thesis
    using ev p p' t v a by (intro exI [of _ vis'] conjI)
qed

subsection \<open>Clicks\<close>

text \<open>
  Claim C5 says that after a click every selected bar gets \<^verbatim>\<open>fill-opacity\<close> 1 and every
  unselected bar 0.5 when the list of selected identities is not empty. The visual issues
  new selection ids on every update, and the handler looks the bar's own id up in the
  list with \<^verbatim>\<open>indexOf\<close>. After a second update with the same rows the bars have the ids
  3, 4, 5. A selection manager that holds the id 1 issued for row \<open>B\<close> by the first update
  answers a click on bar \<open>C\<close> with the ids 1 and 5: row \<open>B\<close> is selected, its bar's id 4
  is equal to 1 for the host, and the bar is left at 0.5.
\<close>

theorem onClick_selected_bar_at_half:
  "update sampleEnv (showSettings True)
     (chartOptions [''A'', ''B'', ''C''] [Num 3, Num 1, Num 2] None None) (constructor newHost)
     = Inr firstRender
   \<and> update sampleEnv (showSettings True)
     (chartOptions [''A'', ''B'', ''C''] [Num 3, Num 1, Num 2] None None) firstRender
     = Inr secondRender
   \<and> map (selectionId \<circ> datum) (barGroup firstRender) = [0, 1, 2]
   \<and> map (selectionId \<circ> datum) (barGroup secondRender) = [3, 4, 5]
   \<and> toggleSelect [1] (selectionId (datum (barGroup secondRender ! 2))) True = ([1, 5], [1, 5])
   \<and> sid_equals (host secondRender) 1 (selectionId (datum (barGroup secondRender ! 1)))
   \<and> fill_opacity (barGroup (fst (onClick toggleSelect [1] secondRender
         (datum (barGroup secondRender ! 2)))) ! 1) = 1 / 2"
proof (intro conjI)
  show "update sampleEnv (showSettings True)
     (chartOptions [''A'', ''B'', ''C''] [Num 3, Num 1, Num 2] None None) (constructor newHost)
     = Inr firstRender"
    unfolding firstRender_def by (simp add: eval_defs render_defs)
  show "update sampleEnv (showSettings True)
     (chartOptions [''A'', ''B'', ''C''] [Num 3, Num 1, Num 2] None None) firstRender
     = Inr secondRender"
    unfolding secondRender_def firstRender_def by (simp add: eval_defs render_defs)
  show "map (selectionId \<circ> datum) (barGroup firstRender) = [0, 1, 2]"
    unfolding firstRender_def by (simp add: eval_defs render_defs)
  show "map (selectionId \<circ> datum) (barGroup secondRender) = [3, 4, 5]"
    unfolding secondRender_def firstRender_def by (simp add: eval_defs render_defs)
  show "toggleSelect [1] (selectionId (datum (barGroup secondRender ! 2))) True = ([1, 5], [1, 5])"
    unfolding secondRender_def firstRender_def by (simp add: eval_defs render_defs)
  show "sid_equals (host secondRender) 1 (selectionId (datum (barGroup secondRender ! 1)))"
    unfolding secondRender_def firstRender_def by (simp add: eval_defs render_defs)
  show "fill_opacity (barGroup (fst (onClick toggleSelect [1] secondRender
         (datum (barGroup secondRender ! 2)))) ! 1) = 1 / 2"
    unfolding secondRender_def firstRender_def by (simp add: eval_defs render_defs)
qed

text \<open>
  Claim C5 as amended: a click on a bar asks the selection manager to select the bar's
  identity with multi-select on; with the list it answers, every bar whose own selection
  id is an element of the list, as the same object, gets \<^verbatim>\<open>fill-opacity\<close> 1 and every other
  bar 0.5 when the list is not empty, and every bar gets 1 when it is empty. The data
  bound to the bars is not changed.
\<close>

theorem onClick_opacity:
  assumes sel: "select sm (selectionId d) True = (ids, sm')"
  shows "\<exists>vis'. onClick select sm vis d = (vis', sm')
       \<and> map datum (barGroup vis') = map datum (barGroup vis)
       \<and> (ids \<noteq> [] \<longrightarrow>
            (\<forall>b \<in> set (barGroup vis').
               fill_opacity b = (if selectionId (datum b) \<in> set ids then 1 else 1 / 2)))
       \<and> (ids = [] \<longrightarrow> (\<forall>b \<in> set (barGroup vis'). fill_opacity b = 1))"
proof -
  let ?vis' = "vis\<lparr>barGroup := map (\<lambda>b. b\<lparr>fill_opacity := clickOpacity ids (datum b)\<rparr>) (barGroup vis)\<rparr>"
  have "onClick select sm vis d = (?vis', sm')"
    using sel by (simp add: onClick_def)
  moreover have "map datum (barGroup ?vis') = map datum (barGroup vis)"
    by (simp add: comp_def)
  moreover have "\<forall>b \<in> set (barGroup ?vis').
      fill_opacity b = (if ids = [] then 1 else if selectionId (datum b) \<in> set ids then 1 else 1 / 2)"
    by (auto simp: clickOpacity_eq)
  ultimately show ?thesis by (intro exI [of _ ?vis']) (auto simp: clickOpacity_eq)
qed

text \<open>
  A click on bar \<open>B\<close> with nothing selected, a second click on it, and a click on it
  while bar \<open>A\<close> is selected: with multi-select on both stay selected, where the selection
  manager of the example would have kept \<open>B\<close> alone without it.
\<close>

theorem onClick_opacity_witness:
  "\<exists>vis d vis1 vis2 vis3.
       update sampleEnv (showSettings True) (chartOptions [''A'', ''B'', ''C''] [Num 3, Num 1, Num 2] None None)
         (constructor newHost) = Inr vis
     \<and> d = datum (barGroup vis ! 1) \<and> category d = Some ''B''
     \<and> toggleSelect [] (selectionId d) True = ([selectionId d], [selectionId d])
     \<and> onClick toggleSelect [] vis d = (vis1, [selectionId d])
     \<and> map fill_opacity (barGroup vis1) = [1 / 2, 1, 1 / 2]
     \<and> toggleSelect [selectionId d] (selectionId d) True = ([], [])
     \<and> onClick toggleSelect [selectionId d] vis1 d = (vis2, [])
     \<and> map fill_opacity (barGroup vis2) = [1, 1, 1]
     \<and> toggleSelect [0] (selectionId d) True = ([0, 1], [0, 1])
     \<and> toggleSelect [0] (selectionId d) False = ([1], [1])
     \<and> onClick toggleSelect [0] vis d = (vis3, [0, 1])
     \<and> map fill_opacity (barGroup vis3) = [1, 1, 1 / 2]"
proof -
  let ?u = "update sampleEnv (showSettings True) (chartOptions [''A'', ''B'', ''C''] [Num 3, Num 1, Num 2] None None)
         (constructor newHost)"
  define vis where "vis = projr ?u"
  define d where "d = datum (barGroup vis ! 1)"
  define vis1 where "vis1 = fst (onClick toggleSelect [] vis d)"
  define vis2 where "vis2 = fst (onClick toggleSelect [selectionId d] vis1 d)"
  define vis3 where "vis3 = fst (onClick toggleSelect [0] vis d)"
  have ev: "?u = Inr vis"
    unfolding vis_def by (simp add: eval_defs render_defs)
  have d: "d = datum (barGroup vis ! 1)" by (rule d_def)
  have sid: "selectionId d = 1"
    unfolding d_def vis_def by (simp add: eval_defs render_defs)
  have cat: "category d = Some ''B''"
    unfolding d_def vis_def by (simp add: eval_defs render_defs)
  have sids: "map selectionId (map datum (barGroup vis)) = [0, 1, 2]"
    unfolding vis_def by (simp add: eval_defs render_defs)
  have s1: "toggleSelect [] (selectionId d) True = ([selectionId d], [selectionId d])"
    by (simp add: toggleSelect_def Let_def)
  have s2: "toggleSelect [selectionId d] (selectionId d) True = ([], [])"
    by (simp add: toggleSelect_def Let_def)
  have s3: "toggleSelect [0] (selectionId d) True = ([0, 1], [0, 1])"
    by (simp add: toggleSelect_def Let_def sid)
  have s3': "toggleSelect [0] (selectionId d) False = ([1], [1])"
    by (simp add: toggleSelect_def Let_def sid)
  have shape: "map f bars = map (\<lambda>r. if r \<in> set ids then 1 else 1 / 2) (map selectionId (map datum bars))"
    if "\<forall>b \<in> set bars. f b = (if selectionId (datum b) \<in> set ids then 1 else 1 / 2)"
    for f :: "Bar \<Rightarrow> real" and bars ids
    using that by (simp add: comp_def)
  from onClick_opacity [where select = toggleSelect and sm = "[]" and d = d and vis = vis, OF s1]
  have c1: "onClick toggleSelect [] vis d = (vis1, [selectionId d])"
    and m1: "map datum (barGroup vis1) = map datum (barGroup vis)"
    and o1: "\<forall>b \<in> set (barGroup vis1).
           fill_opacity b = (if selectionId (datum b) \<in> set [selectionId d] then 1 else 1 / 2)"
    unfolding vis1_def by auto
  have ops1: "map fill_opacity (barGroup vis1) = [1 / 2, 1, 1 / 2]"
    unfolding shape [OF o1] m1 sids by (simp add: sid)
  from onClick_opacity [where select = toggleSelect and sm = "[selectionId d]" and d = d
      and vis = vis1, OF s2]
  have c2: "onClick toggleSelect [selectionId d] vis1 d = (vis2, [])"
    and m2: "map datum (barGroup vis2) = map datum (barGroup vis1)"
    and o2: "\<forall>b \<in> set (barGroup vis2). fill_opacity b = 1"
    unfolding vis2_def by auto
  from m2 m1 sids have "length (barGroup vis2) = 3"
    by (metis length_map length_Cons list.size(3) numeral_3_eq_3)
  with o2 have ops2: "map fill_opacity (barGroup vis2) = [1, 1, 1]"
    by (auto simp: list_eq_iff_nth_eq nth_Cons split: nat.splits)
  from onClick_opacity [where select = toggleSelect and sm = "[0]" and d = d and vis = vis, OF s3]
  have c3: "onClick toggleSelect [0] vis d = (vis3, [0, 1])"
    and m3: "map datum (barGroup vis3) = map datum (barGroup vis)"
    and o3: "\<forall>b \<in> set (barGroup vis3).
           fill_opacity b = (if selectionId (datum b) \<in> set [0, 1] then 1 else 1 / 2)"
    unfolding vis3_def by auto
  have ops3: "map fill_opacity (barGroup vis3) = [1, 1, 1 / 2]"
    unfolding shape [OF o3] m3 sids by simp
  show ?thesis
    apply (rule exI [of _ vis])
    apply (rule exI [of _ d])
    apply (rule exI [of _ vis1])
    apply (rule exI [of _ vis2])
    apply (rule exI [of _ vis3])
    apply (intro conjI)
    apply (rule ev d cat s1 c1 ops1 s2 c2 ops2 s3 s3' c3 ops3)+
    done
qed

text \<open>
  Claim C10: when the selection manager answers with a non-empty list, a bar gets
  \<^verbatim>\<open>fill-opacity\<close> 1 exactly when its own selection id, as a reference, is in the list; an
  identity in the list that the host's \<^verbatim>\<open>equals\<close> identifies with the bar's, but that is
  another object, leaves the bar at 0.5.
\<close>

theorem onClick_reference_equality:
  assumes sel: "select sm (selectionId d) True = (ids, sm')"
    and ne: "ids \<noteq> []"
    and i: "i < length (barGroup vis)"
  shows "(fill_opacity (barGroup (fst (onClick select sm vis d)) ! i) = 1
            \<longleftrightarrow> selectionId (datum (barGroup vis ! i)) \<in> set ids)
       \<and> (\<forall>h. (\<exists>r \<in> set ids. sid_equals h r (selectionId (datum (barGroup vis ! i))))
               \<and> selectionId (datum (barGroup vis ! i)) \<notin> set ids
            \<longrightarrow> fill_opacity (barGroup (fst (onClick select sm vis d)) ! i) = 1 / 2)"
  using assms by (simp add: onClick_def clickOpacity_eq)

text \<open>
  Two updates with the same data: the second issues new selection ids 3, 4, 5 for the
  rows that had 0, 1, 2. A selection manager that still holds the id 1 of row \<open>B\<close> answers a
  click on the new bar \<open>A\<close> with 1 and 3, and the new bar \<open>B\<close>, whose id 4 equals 1 for
  the host, stays at 0.5.
\<close>

theorem onClick_reference_equality_witness:
  "\<exists>vis1 vis2 d.
       update sampleEnv (showSettings True) (chartOptions [''A'', ''B'', ''C''] [Num 3, Num 1, Num 2] None None)
         (constructor newHost) = Inr vis1
     \<and> update sampleEnv (showSettings True) (chartOptions [''A'', ''B'', ''C''] [Num 3, Num 1, Num 2] None None)
         vis1 = Inr vis2
     \<and> d = datum (barGroup vis2 ! 0)
     \<and> selectionId (datum (barGroup vis1 ! 1)) = 1
     \<and> selectionId (datum (barGroup vis2 ! 1)) = 4
     \<and> toggleSelect [1] (selectionId d) True = ([1, 3], [1, 3])
     \<and> sid_equals (host vis2) 1 (selectionId (datum (barGroup vis2 ! 1)))
     \<and> fill_opacity (barGroup (fst (onClick toggleSelect [1] vis2 d)) ! 0) = 1
     \<and> fill_opacity (barGroup (fst (onClick toggleSelect [1] vis2 d)) ! 1) = 1 / 2"
proof -
  let ?opts = "chartOptions [''A'', ''B'', ''C''] [Num 3, Num 1, Num 2] None None"
  let ?u1 = "update sampleEnv (showSettings True) ?opts (constructor newHost)"
  define vis1 where "vis1 = projr ?u1"
  let ?u2 = "update sampleEnv (showSettings True) ?opts vis1"
  define vis2 where "vis2 = projr ?u2"
  define d where "d = datum (barGroup vis2 ! 0)"
  have ev1: "?u1 = Inr vis1"
    unfolding vis1_def by (simp add: eval_defs render_defs)
  have b1: "selectionId (datum (barGroup vis1 ! 1)) = 1"
    unfolding vis1_def by (simp add: eval_defs render_defs)
  have ev2: "?u2 = Inr vis2"
    unfolding vis2_def vis1_def by (simp add: eval_defs render_defs)
  have sids: "map (selectionId \<circ> datum) (barGroup vis2) = [3, 4, 5]"
    unfolding vis2_def vis1_def by (simp add: eval_defs render_defs)
  have eq: "sid_equals (host vis2) 1 4"
    unfolding vis2_def vis1_def by (simp add: eval_defs render_defs)
  from sids have len: "0 < length (barGroup vis2)" "1 < length (barGroup vis2)"
    and b0: "selectionId (datum (barGroup vis2 ! 0)) = 3"
    and b4: "selectionId (datum (barGroup vis2 ! 1)) = 4"
    by (auto simp: map_eq_Cons_conv)
  have sel: "toggleSelect [1] (selectionId d) True = ([1, 3], [1, 3])"
    by (simp add: toggleSelect_def Let_def d_def b0)
  have ne: "[1, 3] \<noteq> ([] :: ref list)" by simp
  from onClick_reference_equality [where select = toggleSelect and sm = "[1]" and d = d
      and vis = vis2, OF sel ne len(1)] b0
  have o0: "fill_opacity (barGroup (fst (onClick toggleSelect [1] vis2 d)) ! 0) = 1" by simp
  from onClick_reference_equality [where select = toggleSelect and sm = "[1]" and d = d
      and vis = vis2, OF sel ne len(2)] b4 eq
  have o1: "fill_opacity (barGroup (fst (onClick toggleSelect [1] vis2 d)) ! 1) = 1 / 2"
    by (auto simp del: One_nat_def)
  have d: "d = datum (barGroup vis2 ! 0)" by (rule d_def)
  from eq b4 have eq': "sid_equals (host vis2) 1 (selectionId (datum (barGroup vis2 ! 1)))"
    by simp
  show ?thesis
    apply (rule exI [of _ vis1])
    apply (rule exI [of _ vis2])
    apply (rule exI [of _ d])
    apply (intro conjI)
    apply (rule ev1 ev2 d b1 b4 sel eq' o0 o1)+
    done
qed

end
